theory Spec2Isabelle
  imports Main "HOL-Library.Word"
begin

unbundle bit_operations_syntax

section \<open>Strings, buffers and JavaScript values\<close>

text \<open>
  A JavaScript string that reaches the code as a header value, an environment variable or
  a request body is modelled by the bytes of its UTF-8 encoding, one \<^typ>\<open>char\<close> per
  byte. \<open>Buffer.from(s)\<close> yields exactly these bytes, and string concatenation with
  ASCII separators commutes with the encoding, so nothing is lost for the code modelled
  here.
\<close>

definition Buffer_from :: "string \<Rightarrow> string" where
  "Buffer_from s = s"

text \<open>\<open>process.env\<close>: a dictionary from variable names to strings.\<close>

type_synonym env = "string \<rightharpoonup> string"

text \<open>Truthiness of an optional string: \<open>undefined\<close> and \<open>''\<close> are falsy.\<close>

definition truthy_str :: "string option \<Rightarrow> bool" where
  "truthy_str v = (case v of None \<Rightarrow> False | Some s \<Rightarrow> s \<noteq> [])"

text \<open>\<open>v || d\<close> on an optional string.\<close>

definition or_default :: "string option \<Rightarrow> string \<Rightarrow> string" where
  "or_default v d = (case v of None \<Rightarrow> d | Some s \<Rightarrow> if s = [] then d else s)"

datatype js_error = TypeError | RangeError | PrismaError | Error string

text \<open>
  The value of a call of an \<open>async\<close> function is a promise, whatever the function
  computes. A promise is an object, and every object is truthy.
\<close>

datatype 'a promise = Fulfilled 'a | Rejected js_error

definition truthy_promise :: "'a promise \<Rightarrow> bool" where
  "truthy_promise p = True"

text \<open>What a middleware does with a request: hand it on, or answer it.\<close>

datatype 'a outcome = Next 'a | Respond nat string

section \<open>Node's crypto: SHA-256, HMAC, hex digests\<close>

type_synonym word32 = "32 word"

definition hex_digit :: "nat \<Rightarrow> char" where
  "hex_digit n = ''0123456789abcdef'' ! (n mod 16)"

definition hex_byte :: "char \<Rightarrow> string" where
  "hex_byte c = [hex_digit (of_char c div 16), hex_digit (of_char c mod 16)]"

text \<open>\<open>.digest('hex')\<close>: two lowercase hexadecimal digits for each byte.\<close>

definition hex_encode :: "string \<Rightarrow> string" where
  "hex_encode bs = concat (map hex_byte bs)"

definition Ch :: "word32 \<Rightarrow> word32 \<Rightarrow> word32 \<Rightarrow> word32" where
  "Ch x y z = (x AND y) XOR (NOT x AND z)"

definition Maj :: "word32 \<Rightarrow> word32 \<Rightarrow> word32 \<Rightarrow> word32" where
  "Maj x y z = (x AND y) XOR (x AND z) XOR (y AND z)"

definition Sigma0 :: "word32 \<Rightarrow> word32" where
  "Sigma0 x = word_rotr 2 x XOR word_rotr 13 x XOR word_rotr 22 x"

definition Sigma1 :: "word32 \<Rightarrow> word32" where
  "Sigma1 x = word_rotr 6 x XOR word_rotr 11 x XOR word_rotr 25 x"

definition sigma0 :: "word32 \<Rightarrow> word32" where
  "sigma0 x = word_rotr 7 x XOR word_rotr 18 x XOR drop_bit 3 x"

definition sigma1 :: "word32 \<Rightarrow> word32" where
  "sigma1 x = word_rotr 17 x XOR word_rotr 19 x XOR drop_bit 10 x"

text \<open>The round constants and the initial hash value of SHA-256, in decimal.\<close>

definition sha256_K :: "word32 list" where
  "sha256_K =
   [1116352408, 1899447441, 3049323471, 3921009573, 961987163, 1508970993,
    2453635748, 2870763221, 3624381080, 310598401, 607225278, 1426881987,
    1925078388, 2162078206, 2614888103, 3248222580, 3835390401, 4022224774,
    264347078, 604807628, 770255983, 1249150122, 1555081692, 1996064986,
    2554220882, 2821834349, 2952996808, 3210313671, 3336571891, 3584528711,
    113926993, 338241895, 666307205, 773529912, 1294757372, 1396182291,
    1695183700, 1986661051, 2177026350, 2456956037, 2730485921, 2820302411,
    3259730800, 3345764771, 3516065817, 3600352804, 4094571909, 275423344,
    430227734, 506948616, 659060556, 883997877, 958139571, 1322822218,
    1537002063, 1747873779, 1955562222, 2024104815, 2227730452, 2361852424,
    2428436474, 2756734187, 3204031479, 3329325298]"

record hash_state =
  hA :: word32
  hB :: word32
  hC :: word32
  hD :: word32
  hE :: word32
  hF :: word32
  hG :: word32
  hH :: word32

definition sha256_H0 :: hash_state where
  "sha256_H0 = \<lparr>hA = 1779033703, hB = 3144134277, hC = 1013904242, hD = 2773480762,
                 hE = 1359893119, hF = 2600822924, hG = 528734635, hH = 1541459225\<rparr>"

definition sha256_round :: "hash_state \<Rightarrow> word32 \<times> word32 \<Rightarrow> hash_state" where
  "sha256_round s kw =
     (let t1 = hH s + Sigma1 (hE s) + Ch (hE s) (hF s) (hG s) + fst kw + snd kw;
          t2 = Sigma0 (hA s) + Maj (hA s) (hB s) (hC s)
      in \<lparr>hA = t1 + t2, hB = hA s, hC = hB s, hD = hC s,
          hE = hD s + t1, hF = hE s, hG = hF s, hH = hG s\<rparr>)"

text \<open>The message schedule grows from the sixteen words of a block to sixty-four.\<close>

definition schedule_step :: "word32 list \<Rightarrow> word32 list" where
  "schedule_step ws =
     (let n = length ws
      in ws @ [sigma1 (ws ! (n - 2)) + ws ! (n - 7) + sigma0 (ws ! (n - 15)) + ws ! (n - 16)])"

definition be32 :: "string \<Rightarrow> word32" where
  "be32 bs = foldl (\<lambda>acc c. push_bit 8 acc + of_char c) 0 (take 4 bs)"

fun words_of :: "nat \<Rightarrow> string \<Rightarrow> word32 list" where
  "words_of 0 bs = []"
| "words_of (Suc n) bs = be32 bs # words_of n (drop 4 bs)"

definition sha256_block :: "hash_state \<Rightarrow> string \<Rightarrow> hash_state" where
  "sha256_block s block =
     (let ws = (schedule_step ^^ 48) (words_of 16 block);
          r = foldl sha256_round s (zip sha256_K ws)
      in \<lparr>hA = hA s + hA r, hB = hB s + hB r, hC = hC s + hC r, hD = hD s + hD r,
          hE = hE s + hE r, hF = hF s + hF r, hG = hG s + hG r, hH = hH s + hH r\<rparr>)"

text \<open>The \<open>k\<close> low bytes of a number, most significant first.\<close>

definition be_bytes :: "nat \<Rightarrow> nat \<Rightarrow> string" where
  "be_bytes k v = map (\<lambda>i. char_of (v div 256 ^ i)) (rev [0..<k])"

definition sha256_pad :: "string \<Rightarrow> string" where
  "sha256_pad m =
     m @ [char_of (128::nat)] @ replicate ((119 - length m mod 64) mod 64) (char_of (0::nat))
       @ be_bytes 8 (8 * length m)"

fun sha256_blocks :: "nat \<Rightarrow> hash_state \<Rightarrow> string \<Rightarrow> hash_state" where
  "sha256_blocks 0 s bs = s"
| "sha256_blocks (Suc n) s bs = sha256_blocks n (sha256_block s (take 64 bs)) (drop 64 bs)"

definition sha256 :: "string \<Rightarrow> string" where
  "sha256 m =
     (let p = sha256_pad m;
          s = sha256_blocks (length p div 64) sha256_H0 p
      in concat (map (\<lambda>w. be_bytes 4 (unat w))
                  [hA s, hB s, hC s, hD s, hE s, hF s, hG s, hH s]))"

definition xor_pad :: "nat \<Rightarrow> string \<Rightarrow> string" where
  "xor_pad p k = map (\<lambda>c. char_of ((of_char c :: nat) XOR p)) k"

text \<open>
  \<open>crypto.createHmac('sha256', key).update(msg).digest()\<close>: a key longer than a block
  is hashed first, a shorter one is filled with zero bytes.
\<close>

definition hmac_sha256 :: "string \<Rightarrow> string \<Rightarrow> string" where
  "hmac_sha256 key msg =
     (let k0 = (if 64 < length key then sha256 key else key);
          k = k0 @ replicate (64 - length k0) (char_of (0::nat))
      in sha256 (xor_pad 92 k @ sha256 (xor_pad 54 k @ msg)))"

text \<open>
  \<open>crypto.timingSafeEqual(a, b)\<close> throws a RangeError when the two buffers differ in
  length, and otherwise tells whether they hold the same bytes.
\<close>

definition timingSafeEqual :: "string \<Rightarrow> string \<Rightarrow> js_error + bool" where
  "timingSafeEqual a b = (if length a = length b then Inr (a = b) else Inl RangeError)"

section \<open>SlackService.verifyWebhookSignature\<close>

definition baseString :: "string \<Rightarrow> string \<Rightarrow> string" where
  "baseString timestamp body = ''v0:'' @ timestamp @ '':'' @ body"

definition expectedSignature :: "string \<Rightarrow> string \<Rightarrow> string \<Rightarrow> string" where
  "expectedSignature secret timestamp body =
     ''v0='' @ hex_encode (hmac_sha256 secret (baseString timestamp body))"

text \<open>
  The body of the \<open>try\<close> block. \<open>createHmac\<close> throws a TypeError when
  \<open>SLACK_SIGNING_SECRET\<close> is not set.
\<close>

definition verifyWebhookSignature_try :: "env \<Rightarrow> string \<Rightarrow> string \<Rightarrow> string \<Rightarrow> js_error + bool" where
  "verifyWebhookSignature_try env signature timestamp body =
     (case env ''SLACK_SIGNING_SECRET'' of
        None \<Rightarrow> Inl TypeError
      | Some secret \<Rightarrow>
          timingSafeEqual (Buffer_from signature)
            (Buffer_from (expectedSignature secret timestamp body)))"

text \<open>The method is \<open>async\<close>; its \<open>catch\<close> turns every exception into \<open>false\<close>.\<close>

definition verifyWebhookSignature :: "env \<Rightarrow> string \<Rightarrow> string \<Rightarrow> string \<Rightarrow> bool promise" where
  "verifyWebhookSignature env signature timestamp body =
     (case verifyWebhookSignature_try env signature timestamp body of
        Inl e \<Rightarrow> Fulfilled False
      | Inr b \<Rightarrow> Fulfilled b)"

section \<open>Request bodies: JSON values and \<open>JSON.stringify\<close>\<close>

text \<open>
  What \<open>express.json()\<close> and \<open>express.urlencoded()\<close> leave in \<open>req.body\<close>. The
  numbers modelled are those written as integers; an object lists its members in
  insertion order.
\<close>

datatype json = JNull | JBool bool | JNumber int | JString string
  | JArray "json list" | JObject "(string \<times> json) list"

definition digit_char :: "nat \<Rightarrow> char" where
  "digit_char n = ''0123456789'' ! (n mod 10)"

fun digits :: "nat \<Rightarrow> string" where
  "digits n = (if n < 10 then [digit_char n] else digits (n div 10) @ [digit_char n])"

declare digits.simps [simp del]

text \<open>
  A JavaScript number is a double. An integer of more than 53 bits is held as the nearest
  double, ties going to the even mantissa.
\<close>

fun bit_length :: "nat \<Rightarrow> nat" where
  "bit_length n = (if n = 0 then 0 else Suc (bit_length (n div 2)))"

declare bit_length.simps [simp del]

definition to_double :: "nat \<Rightarrow> nat" where
  "to_double x =
     (if bit_length x \<le> 53 then x
      else
        (let shift = bit_length x - 53;
             q = x div 2 ^ shift;
             r = x mod 2 ^ shift;
             half = 2 ^ (shift - 1)
         in (if half < r \<or> (r = half \<and> odd q) then q + 1 else q) * 2 ^ shift))"

text \<open>
  \<open>reads_as x c\<close>: the decimal \<open>c\<close> reads back as the double \<open>x\<close> (of more than 53
  bits), that is, \<open>c\<close> lies within half a step of \<open>x\<close>, the ends included when the
  mantissa of \<open>x\<close> is even. Below a power of two the step is half as wide.
\<close>

definition reads_as :: "nat \<Rightarrow> nat \<Rightarrow> bool" where
  "reads_as x c =
     (let shift = bit_length x - 53;
          q = x div 2 ^ shift;
          above = 2 * x + 2 ^ shift;
          below = 2 * x - (if q = 2 ^ 52 then 2 ^ (shift - 1) else 2 ^ shift)
      in (below < 2 * c \<and> 2 * c < above) \<or> (even q \<and> (2 * c = below \<or> 2 * c = above)))"

text \<open>
  The decimal of \<open>k\<close> significant digits that reads back as \<open>x\<close>, if there is one: of
  the two neighbours of \<open>x\<close> the closer, and of two equally close the even one.
\<close>

definition candidate :: "nat \<Rightarrow> nat \<Rightarrow> nat option" where
  "candidate x k =
     (let p = 10 ^ (length (digits x) - k);
          down = x div p * p;
          up = down + p;
          down_closer = (x - down < up - x \<or> (x - down = up - x \<and> even (down div p)))
      in if reads_as x down \<and> (if reads_as x up then down_closer else True) then Some down
         else if reads_as x up then Some up
         else None)"

definition shortest :: "nat \<Rightarrow> nat" where
  "shortest x =
     (case List.map_filter (candidate x) [1..<Suc (length (digits x))] of
        [] \<Rightarrow> x
      | c # cs \<Rightarrow> c)"

definition strip_zeros :: "string \<Rightarrow> string" where
  "strip_zeros s = rev (dropWhile (\<lambda>c. c = CHR ''0'') (rev s))"

text \<open>
  \<open>Number.prototype.toString\<close> on a double that is a natural number: the fewest digits
  that read back as the same double, written out in full below \<open>10\<^sup>2\<^sup>1\<close> and in
  exponent form from there on.
\<close>

definition Number_toString :: "nat \<Rightarrow> string" where
  "Number_toString x =
     (if bit_length x \<le> 53 then digits x
      else
        (let c = shortest x; n = length (digits c); s = strip_zeros (digits c)
         in if n \<le> 21 then digits c
            else [hd s] @ (if tl s = [] then [] else ''.'' @ tl s) @ ''e+'' @ digits (n - 1)))"

text \<open>
  How \<open>JSON.stringify\<close> prints the number that the integer \<open>i\<close> is read as; an infinite
  value is printed as \<open>null\<close>.
\<close>

definition show_int :: "int \<Rightarrow> string" where
  "show_int i =
     (let x = to_double (nat \<bar>i\<bar>)
      in if 2 ^ 1024 \<le> x then ''null''
         else (if i < 0 then ''-'' else []) @ Number_toString x)"

text \<open>
  The escapes of \<open>JSON.stringify\<close>: the quote, the backslash, the five named control
  characters, and \<open>\u00XX\<close> for the other bytes below 32.
\<close>

definition json_escape :: "char \<Rightarrow> string" where
  "json_escape c =
     (if c = CHR 0x22 then [CHR 0x5C, CHR 0x22]
      else if c = CHR 0x5C then [CHR 0x5C, CHR 0x5C]
      else if c = CHR 0x08 then [CHR 0x5C, CHR ''b'']
      else if c = CHR 0x0C then [CHR 0x5C, CHR ''f'']
      else if c = CHR 0x0A then [CHR 0x5C, CHR ''n'']
      else if c = CHR 0x0D then [CHR 0x5C, CHR ''r'']
      else if c = CHR 0x09 then [CHR 0x5C, CHR ''t'']
      else if (of_char c :: nat) < 32 then [CHR 0x5C, CHR ''u'', CHR ''0'', CHR ''0''] @ hex_byte c
      else [c])"

definition json_quote :: "string \<Rightarrow> string" where
  "json_quote s = [CHR 0x22] @ concat (map json_escape s) @ [CHR 0x22]"

fun join :: "string \<Rightarrow> string list \<Rightarrow> string" where
  "join sep [] = []"
| "join sep [x] = x"
| "join sep (x # y # ys) = x @ sep @ join sep (y # ys)"

fun JSON_stringify :: "json \<Rightarrow> string" where
  "JSON_stringify JNull = ''null''"
| "JSON_stringify (JBool b) = (if b then ''true'' else ''false'')"
| "JSON_stringify (JNumber n) = show_int n"
| "JSON_stringify (JString s) = json_quote s"
| "JSON_stringify (JArray xs) = ''['' @ join '','' (map JSON_stringify xs) @ '']''"
| "JSON_stringify (JObject kvs) =
     ''{'' @ join '','' (map (\<lambda>kv. json_quote (fst kv) @ '':'' @ JSON_stringify (snd kv)) kvs) @ ''}''"

section \<open>The middleware verifySlackSignature (routes/slack.js)\<close>

text \<open>
  The parts of the request the middleware can see, and the bytes that came over the wire.
  By the time a route runs, the body parsers of app.js have consumed the raw bytes and
  put the parsed value into \<open>req.body\<close>.
\<close>

record slack_request =
  req_headers :: "string \<rightharpoonup> string"
  req_rawBody :: string
  req_body :: json

definition the_str :: "string option \<Rightarrow> string" where
  "the_str v = (case v of None \<Rightarrow> [] | Some s \<Rightarrow> s)"

text \<open>
  Line 26: \<open>const isValid = slackService.verifyWebhookSignature(signature, timestamp, body)\<close>
  with \<open>body = JSON.stringify(req.body)\<close>. There is no \<open>await\<close>: \<open>isValid\<close> is the
  promise itself. Nothing in the \<open>try\<close> block throws before the promise is made, so the
  \<open>catch\<close> with its answer 500 is never entered.
\<close>

definition verifySlackSignature_isValid :: "env \<Rightarrow> slack_request \<Rightarrow> bool promise" where
  "verifySlackSignature_isValid env req =
     verifyWebhookSignature env (the_str (req_headers req ''x-slack-signature''))
       (the_str (req_headers req ''x-slack-request-timestamp'')) (JSON_stringify (req_body req))"

definition verifySlackSignature :: "env \<Rightarrow> slack_request \<Rightarrow> unit outcome" where
  "verifySlackSignature env req =
     (let signature = req_headers req ''x-slack-signature'';
          timestamp = req_headers req ''x-slack-request-timestamp''
      in if \<not> (truthy_str signature \<and> truthy_str timestamp) then Respond 401 ''Unauthorized''
         else if \<not> truthy_promise (verifySlackSignature_isValid env req) then Respond 401 ''Unauthorized''
         else Next ())"

text \<open>
  The specification's notion of a stale request (section 4.6), for which the repository
  has no code: the timestamp header is unix seconds as a decimal string, and a request
  is stale when its timestamp is further from the current time than the tolerance.
\<close>

fun parse_decimal :: "string \<Rightarrow> nat option" where
  "parse_decimal [] = None"
| "parse_decimal cs =
     (if list_all (\<lambda>c. c \<in> set ''0123456789'') cs
      then Some (foldl (\<lambda>acc c. 10 * acc + (of_char c - 48)) 0 cs) else None)"

definition spec_stale :: "int \<Rightarrow> int \<Rightarrow> string \<Rightarrow> bool" where
  "spec_stale tolerance now timestamp =
     (case parse_decimal timestamp of
        None \<Rightarrow> True
      | Some t \<Rightarrow> tolerance < \<bar>now - int t\<bar>)"

section \<open>The data model (prisma/schema.prisma)\<close>

text \<open>
  Times are milliseconds since the epoch, as \<open>Date.now()\<close> reads them. The nullable
  display columns of a \<open>User\<close> row (\<open>givenName\<close>, \<open>surname\<close>, \<open>jobTitle\<close>,
  \<open>department\<close>, \<open>officeLocation\<close>, \<open>mobilePhone\<close>, \<open>businessPhones\<close>) are kept
  in one dictionary, \<open>u_attributes\<close>.
\<close>

record user =
  u_id :: string
  u_azureId :: string
  u_email :: string
  u_displayName :: "string option"
  u_attributes :: "string \<rightharpoonup> string"
  u_accessToken :: "string option"
  u_lastLoginAt :: "int option"
  u_lastLogoutAt :: "int option"
  u_isActive :: bool
  u_revokedAt :: "int option"

text \<open>A row of \<open>UserPermission\<close>: a permission grant.\<close>

record grant =
  g_userId :: string
  g_name :: string
  g_grantedAt :: int
  g_grantedBy :: "string option"
  g_expiresAt :: "int option"
  g_isActive :: bool

record authLog =
  l_userId :: "string option"
  l_action :: string
  l_ipAddress :: string
  l_userAgent :: string
  l_success :: bool
  l_metadata :: string

text \<open>
  The database behind the Prisma client. When it cannot be reached every query throws.
\<close>

record store =
  users :: "user list"
  userPermissions :: "grant list"
  authLogs :: "authLog list"
  reachable :: bool

text \<open>\<open>prisma.user.findUnique({ where: { id } })\<close>\<close>

definition user_findUnique :: "store \<Rightarrow> string \<Rightarrow> js_error + user option" where
  "user_findUnique db uid =
     (if reachable db then Inr (find (\<lambda>u. u_id u = uid) (users db)) else Inl PrismaError)"

text \<open>The same query with \<open>include: { permissions: true }\<close>: the row and its grants.\<close>

definition user_findUnique_permissions ::
  "store \<Rightarrow> string \<Rightarrow> js_error + (user \<times> grant list) option" where
  "user_findUnique_permissions db uid =
     (if reachable db
      then Inr (map_option (\<lambda>u. (u, filter (\<lambda>g. g_userId g = uid) (userPermissions db)))
                  (find (\<lambda>u. u_id u = uid) (users db)))
      else Inl PrismaError)"

definition await :: "'a promise \<Rightarrow> js_error + 'a" where
  "await p = (case p of Fulfilled v \<Rightarrow> Inr v | Rejected e \<Rightarrow> Inl e)"

section \<open>AzureAuthService.checkUserPermission\<close>

definition checkUserPermission_try :: "store \<Rightarrow> string \<Rightarrow> string \<Rightarrow> js_error + bool" where
  "checkUserPermission_try db userId permission =
     (case user_findUnique_permissions db userId of
        Inl e \<Rightarrow> Inl e
      | Inr None \<Rightarrow> Inr False
      | Inr (Some (user, permissions)) \<Rightarrow>
          (let hasPermission = list_ex (\<lambda>p. g_name p = permission) permissions;
               isAdmin = list_ex (\<lambda>p. g_name p = ''admin'') permissions
           in Inr (hasPermission \<or> isAdmin)))"

definition checkUserPermission :: "store \<Rightarrow> string \<Rightarrow> string \<Rightarrow> bool promise" where
  "checkUserPermission db userId permission =
     (case checkUserPermission_try db userId permission of
        Inl e \<Rightarrow> Fulfilled False
      | Inr b \<Rightarrow> Fulfilled b)"

text \<open>
  The specification's notion of an effective grant (section 3), for which the repository
  has no code: a grant is effective only while \<open>isActive\<close> and \<open>expiresAt\<close> is unset
  or in the future.
\<close>

definition spec_effective :: "int \<Rightarrow> grant \<Rightarrow> bool" where
  "spec_effective now g =
     (g_isActive g \<and> (case g_expiresAt g of None \<Rightarrow> True | Some t \<Rightarrow> now < t))"

section \<open>The jsonwebtoken library: compact HS256 tokens\<close>

definition base64_char :: "string \<Rightarrow> nat \<Rightarrow> char" where
  "base64_char alphabet n = alphabet ! (n mod 64)"

text \<open>
  Base64 over an alphabet of 64 characters; \<open>pad\<close> is what fills the last group of four
  (\<open>''=''\<close> in the standard encoding, nothing in the URL-safe one).
\<close>

fun base64_with :: "string \<Rightarrow> string \<Rightarrow> string \<Rightarrow> string" where
  "base64_with al pad [] = []"
| "base64_with al pad [a] =
     (let x = of_char a :: nat
      in [base64_char al (x div 4), base64_char al (x mod 4 * 16)] @ pad @ pad)"
| "base64_with al pad [a, b] =
     (let x = of_char a :: nat; y = of_char b :: nat
      in [base64_char al (x div 4), base64_char al (x mod 4 * 16 + y div 16),
          base64_char al (y mod 16 * 4)] @ pad)"
| "base64_with al pad (a # b # c # rest) =
     (let x = of_char a :: nat; y = of_char b :: nat; z = of_char c :: nat
      in [base64_char al (x div 4), base64_char al (x mod 4 * 16 + y div 16),
          base64_char al (y mod 16 * 4 + z div 64), base64_char al (z mod 64)]
         @ base64_with al pad rest)"

definition base64 :: "string \<Rightarrow> string" where
  "base64 bs =
     base64_with ''ABCDEFGHIJKLMNOPQRSTUVWXYZabcdefghijklmnopqrstuvwxyz0123456789+/'' ''='' bs"

definition base64url :: "string \<Rightarrow> string" where
  "base64url bs =
     base64_with ''ABCDEFGHIJKLMNOPQRSTUVWXYZabcdefghijklmnopqrstuvwxyz0123456789-_'' [] bs"

text \<open>
  The claims of a session token. \<open>exp\<close> is optional in a token that arrives; times are in
  seconds.
\<close>

record claims =
  c_userId :: string
  c_email :: string
  c_displayName :: "string option"
  c_azureId :: string
  c_permissions :: "json list"
  c_iat :: int
  c_exp :: "int option"
  c_iss :: string
  c_aud :: string

text \<open>
  A token string is modelled by what it decodes to: the algorithm of its header, its
  payload and its signature segment. A string that is not of this form is \<open>Garbage\<close>.
\<close>

record jwt =
  t_alg :: string
  t_payload :: claims
  t_signature :: string

datatype token = Garbage string | Compact jwt

definition header_json :: "string \<Rightarrow> json" where
  "header_json alg = JObject [(''alg'', JString alg), (''typ'', JString ''JWT'')]"

definition claims_json :: "claims \<Rightarrow> json" where
  "claims_json c =
     JObject
       ([(''userId'', JString (c_userId c)),
         (''email'', JString (c_email c)),
         (''displayName'', (case c_displayName c of None \<Rightarrow> JNull | Some d \<Rightarrow> JString d)),
         (''azureId'', JString (c_azureId c)),
         (''permissions'', JArray (c_permissions c)),
         (''iat'', JNumber (c_iat c))]
        @ (case c_exp c of None \<Rightarrow> [] | Some e \<Rightarrow> [(''exp'', JNumber e)])
        @ [(''iss'', JString (c_iss c)), (''aud'', JString (c_aud c))])"

definition signing_input :: "string \<Rightarrow> claims \<Rightarrow> string" where
  "signing_input alg c =
     base64url (JSON_stringify (header_json alg)) @ ''.'' @ base64url (JSON_stringify (claims_json c))"

definition jws_signature :: "string \<Rightarrow> string \<Rightarrow> claims \<Rightarrow> string" where
  "jws_signature secret alg c = base64url (hmac_sha256 secret (signing_input alg c))"

text \<open>
  \<open>jwt.sign(payload, secret, { algorithm: 'HS256' })\<close>. Before it signs, the library
  stamps the payload with \<open>payload.iat || Math.floor(Date.now() / 1000)\<close>: an \<open>iat\<close>
  of 0 is falsy and gives way to the library's own reading of the clock, \<open>now_sign\<close>
  (milliseconds).
\<close>

definition jwt_sign :: "claims \<Rightarrow> string \<Rightarrow> int \<Rightarrow> token" where
  "jwt_sign payload secret now_sign =
     (let timestamp = (if c_iat payload = 0 then now_sign div 1000 else c_iat payload);
          stamped = payload\<lparr>c_iat := timestamp\<rparr>
      in Compact \<lparr>t_alg = ''HS256'', t_payload = stamped,
                  t_signature = jws_signature secret ''HS256'' stamped\<rparr>)"

text \<open>\<open>jwt.decode(token)\<close>: the payload, unverified, or \<open>null\<close>.\<close>

definition jwt_decode :: "token \<Rightarrow> claims option" where
  "jwt_decode tok = (case tok of Garbage s \<Rightarrow> None | Compact t \<Rightarrow> Some (t_payload t))"

datatype jwt_error = JsonWebTokenError string | TokenExpiredError

definition expired :: "int \<Rightarrow> claims \<Rightarrow> bool" where
  "expired clockTimestamp c = (case c_exp c of None \<Rightarrow> False | Some e \<Rightarrow> e \<le> clockTimestamp)"

text \<open>
  \<open>jwt.verify(token, secret, { algorithms, issuer, audience })\<close> at the clock reading
  \<open>now\<close> (milliseconds): the checks in the order the library makes them.
\<close>

definition jwt_verify ::
  "token \<Rightarrow> string \<Rightarrow> string list \<Rightarrow> string \<Rightarrow> string \<Rightarrow> int \<Rightarrow> jwt_error + claims" where
  "jwt_verify tok secret algorithms issuer audience now =
     (case tok of
        Garbage s \<Rightarrow> Inl (JsonWebTokenError ''jwt malformed'')
      | Compact t \<Rightarrow>
          if t_alg t \<notin> set algorithms then Inl (JsonWebTokenError ''invalid algorithm'')
          else if t_signature t \<noteq> jws_signature secret (t_alg t) (t_payload t)
            then Inl (JsonWebTokenError ''invalid signature'')
          else if expired (now div 1000) (t_payload t) then Inl TokenExpiredError
          else if c_aud (t_payload t) \<noteq> audience then Inl (JsonWebTokenError ''jwt audience invalid'')
          else if c_iss (t_payload t) \<noteq> issuer then Inl (JsonWebTokenError ''jwt issuer invalid'')
          else Inr (t_payload t))"

section \<open>AzureAuthService: session tokens\<close>

text \<open>\<open>process.env.JWT_SECRET || 'your-secret-key'\<close>\<close>

definition jwt_secret :: "env \<Rightarrow> string" where
  "jwt_secret env = or_default (env ''JWT_SECRET'') ''your-secret-key''"

text \<open>
  \<open>generateJWT(user)\<close>. The payload reads the clock twice, once for \<open>iat\<close> and once for
  \<open>exp\<close>: \<open>now_iat\<close> and \<open>now_exp\<close> are the two readings; \<open>now_sign\<close> is the
  reading \<open>jwt.sign\<close> makes. A \<open>User\<close> row has no \<open>permissions\<close> property, so
  \<open>user.permissions || []\<close> is the empty list.
\<close>

definition generateJWT_payload :: "int \<Rightarrow> int \<Rightarrow> user \<Rightarrow> claims" where
  "generateJWT_payload now_iat now_exp user =
     \<lparr>c_userId = u_id user,
      c_email = u_email user,
      c_displayName = u_displayName user,
      c_azureId = u_azureId user,
      c_permissions = [],
      c_iat = now_iat div 1000,
      c_exp = Some (now_exp div 1000 + 60 * 60 * 24),
      c_iss = ''smart-slack-bot'',
      c_aud = ''smart-slack-bot-users''\<rparr>"

definition generateJWT :: "env \<Rightarrow> int \<Rightarrow> int \<Rightarrow> int \<Rightarrow> user \<Rightarrow> token" where
  "generateJWT env now_iat now_exp now_sign user =
     jwt_sign (generateJWT_payload now_iat now_exp user) (jwt_secret env) now_sign"

text \<open>\<open>verifyJWT(token)\<close>: the decoded claims, or \<open>null\<close> for every error of the library.\<close>

definition verifyJWT :: "env \<Rightarrow> int \<Rightarrow> token \<Rightarrow> claims option" where
  "verifyJWT env now tok =
     (case jwt_verify tok (jwt_secret env) [''HS256''] ''smart-slack-bot'' ''smart-slack-bot-users'' now of
        Inl e \<Rightarrow> None
      | Inr decoded \<Rightarrow> Some decoded)"

text \<open>
  \<open>validateToken(token)\<close>. \<open>now_b\<close> is the clock reading of its own expiry test,
  \<open>now_c\<close> the one \<open>jwt.verify\<close> makes. The test \<open>decoded.exp && ...\<close> lets a missing
  and a zero \<open>exp\<close> through. Every exception ends in \<open>false\<close>.
\<close>

definition validateToken_try :: "env \<Rightarrow> store \<Rightarrow> int \<Rightarrow> int \<Rightarrow> token \<Rightarrow> js_error + bool" where
  "validateToken_try env db now_b now_c tok =
     (case jwt_decode tok of
        None \<Rightarrow> Inr False
      | Some decoded \<Rightarrow>
          if (case c_exp decoded of None \<Rightarrow> False | Some e \<Rightarrow> e \<noteq> 0 \<and> e < now_b div 1000)
          then Inr False
          else
            (case verifyJWT env now_c tok of
               None \<Rightarrow> Inr False
             | Some verified \<Rightarrow>
                 (case user_findUnique db (c_userId verified) of
                    Inl e \<Rightarrow> Inl e
                  | Inr None \<Rightarrow> Inr False
                  | Inr (Some user) \<Rightarrow> Inr (u_isActive user))))"

definition validateToken :: "env \<Rightarrow> store \<Rightarrow> int \<Rightarrow> int \<Rightarrow> token \<Rightarrow> bool promise" where
  "validateToken env db now_b now_c tok =
     (case validateToken_try env db now_b now_c tok of
        Inl e \<Rightarrow> Fulfilled False
      | Inr b \<Rightarrow> Fulfilled b)"

section \<open>The middleware requireAuth (routes/auth.js)\<close>

text \<open>
  The three places a token is looked for. \<open>authorization\<close> is the header with the first
  \<open>'Bearer '\<close> taken out, as \<open>.replace('Bearer ', '')\<close> leaves it.
\<close>

record auth_request =
  authorization :: "token option"
  cookies_jwt :: "token option"
  query_token :: "token option"

definition truthy_token :: "token option \<Rightarrow> bool" where
  "truthy_token v =
     (case v of None \<Rightarrow> False | Some (Garbage s) \<Rightarrow> s \<noteq> [] | Some (Compact t) \<Rightarrow> True)"

text \<open>\<open>a || b || c\<close>: the first truthy one, else the last.\<close>

definition request_token :: "auth_request \<Rightarrow> token option" where
  "request_token req =
     (if truthy_token (authorization req) then authorization req
      else if truthy_token (cookies_jwt req) then cookies_jwt req
      else query_token req)"

text \<open>
  \<open>now_a\<close> is the clock reading of the first \<open>verifyJWT\<close>; \<open>now_b\<close> and \<open>now_c\<close> are
  those of \<open>validateToken\<close>. \<open>Next decoded\<close> stands for \<open>req.user = decoded; next()\<close>.
\<close>

definition requireAuth ::
  "env \<Rightarrow> store \<Rightarrow> int \<Rightarrow> int \<Rightarrow> int \<Rightarrow> auth_request \<Rightarrow> claims outcome" where
  "requireAuth env db now_a now_b now_c req =
     (let token = request_token req
      in if \<not> truthy_token token then Respond 401 ''Authentication token required''
         else
           (case token of
              None \<Rightarrow> Respond 401 ''Authentication token required''
            | Some tok \<Rightarrow>
                (case verifyJWT env now_a tok of
                   None \<Rightarrow> Respond 401 ''Invalid or expired token''
                 | Some decoded \<Rightarrow>
                     (case await (validateToken env db now_b now_c tok) of
                        Inl e \<Rightarrow> Respond 401 ''Authentication failed''
                      | Inr isValid \<Rightarrow>
                          if \<not> isValid then Respond 401 ''User account is inactive or revoked''
                          else Next decoded))))"

section \<open>The identity provider (MSAL and Microsoft Graph)\<close>

text \<open>
  The provider is outside the repository. What the code relies on: an authorization code
  is redeemed for a result, once, with the redirect URI it was issued for; an access
  token reads a profile.
\<close>

record auth_result =
  r_account :: "string option"
  r_accessToken :: string
  r_expiresIn :: "int option"

record profile =
  p_mail :: "string option"
  p_userPrincipalName :: "string option"
  p_displayName :: "string option"
  p_attributes :: "string \<rightharpoonup> string"
  p_businessPhones :: "string list option"

record provider =
  pending :: "string \<rightharpoonup> string \<times> auth_result"
  graph :: "string \<rightharpoonup> profile"

definition acquireTokenByCode ::
  "provider \<Rightarrow> string \<Rightarrow> string \<Rightarrow> (js_error + auth_result) \<times> provider" where
  "acquireTokenByCode idp code redirectUri =
     (case pending idp code of
        None \<Rightarrow> (Inl (Error ''invalid_grant''), idp)
      | Some (uri, response) \<Rightarrow>
          if uri = redirectUri
          then (Inr response, idp\<lparr>pending := (pending idp)(code := None)\<rparr>)
          else (Inl (Error ''invalid_grant''), idp))"

definition getUserProfile :: "provider \<Rightarrow> string \<Rightarrow> js_error + profile" where
  "getUserProfile idp accessToken =
     (case graph idp accessToken of
        None \<Rightarrow> Inl (Error ''Request failed'')
      | Some p \<Rightarrow> Inr p)"

section \<open>AzureAuthService: the callback exchange\<close>

text \<open>
  An instance of the service. The constructor leaves \<open>msalClient\<close> at \<open>null\<close>; only
  \<open>initialize\<close> sets it, and it throws when one of the three provider settings is
  absent or empty.
\<close>

datatype msal_client = ConfidentialClientApplication

record azure_auth_service =
  msalClient :: "msal_client option"
  isInitialized :: bool

definition new_AzureAuthService :: azure_auth_service where
  "new_AzureAuthService = \<lparr>msalClient = None, isInitialized = False\<rparr>"


text \<open>
  What a callback takes from outside the program: the clock reading of \<open>upsertUser\<close>,
  the three of \<open>generateJWT\<close>, and the id the database would give a new row.
\<close>

record ambient =
  a_now_login :: int
  a_now_iat :: int
  a_now_exp :: int
  a_now_sign :: int
  a_cuid :: string

record world =
  w_db :: store
  w_idp :: provider

text \<open>\<open>encryptToken\<close>: \<open>Buffer.from(token).toString('base64')\<close>\<close>

definition encryptToken :: "string \<Rightarrow> string" where
  "encryptToken tok = base64 tok"

text \<open>\<open>a || b\<close> on two optional strings.\<close>

definition or_str :: "string option \<Rightarrow> string option \<Rightarrow> string option" where
  "or_str a b = (if truthy_str a then a else b)"

text \<open>
  \<open>upsertUser\<close>: the upsert keyed by \<open>azureId\<close>, then the \<open>login\<close> row of the auth
  log. The upsert throws when the store is unreachable, when there is no email, and
  when a unique column (\<open>email\<close>, \<open>id\<close>) would be duplicated.
\<close>

definition upsertUser ::
  "store \<Rightarrow> ambient \<Rightarrow> string \<Rightarrow> profile \<Rightarrow> string \<Rightarrow> js_error + user \<times> store" where
  "upsertUser db amb homeAccountId prof accessToken =
     (case or_str (p_mail prof) (p_userPrincipalName prof) of
        None \<Rightarrow> Inl PrismaError
      | Some email \<Rightarrow>
          (let attributes = (p_attributes prof)(''businessPhones'' :=
                 map_option (\<lambda>ps. JSON_stringify (JArray (map JString ps))) (p_businessPhones prof));
               log = \<lparr>l_userId = None, l_action = ''login'', l_ipAddress = ''unknown'',
                      l_userAgent = ''unknown'', l_success = True,
                      l_metadata = JSON_stringify (JObject [(''provider'', JString ''azure_ad''),
                                      (''accountId'', JString homeAccountId)])\<rparr>
           in if \<not> reachable db then Inl PrismaError
              else
                (case find (\<lambda>u. u_azureId u = homeAccountId) (users db) of
                   Some old \<Rightarrow>
                     if list_ex (\<lambda>u. u_email u = email \<and> u_azureId u \<noteq> homeAccountId) (users db)
                     then Inl PrismaError
                     else
                       (let user = old\<lparr>u_email := email, u_displayName := p_displayName prof,
                              u_attributes := attributes,
                              u_accessToken := Some (encryptToken accessToken),
                              u_lastLoginAt := Some (a_now_login amb), u_isActive := True\<rparr>
                        in Inr (user,
                             db\<lparr>users := map (\<lambda>u. if u_azureId u = homeAccountId then user else u) (users db),
                                authLogs := authLogs db @ [log\<lparr>l_userId := Some (u_id user)\<rparr>]\<rparr>))
                 | None \<Rightarrow>
                     if list_ex (\<lambda>u. u_email u = email) (users db)
                        \<or> list_ex (\<lambda>u. u_id u = a_cuid amb) (users db)
                     then Inl PrismaError
                     else
                       (let user = \<lparr>u_id = a_cuid amb, u_azureId = homeAccountId, u_email = email,
                              u_displayName = p_displayName prof, u_attributes = attributes,
                              u_accessToken = Some (encryptToken accessToken),
                              u_lastLoginAt = Some (a_now_login amb), u_lastLogoutAt = None,
                              u_isActive = True, u_revokedAt = None\<rparr>
                        in Inr (user,
                             db\<lparr>users := users db @ [user],
                                authLogs := authLogs db @ [log\<lparr>l_userId := Some (u_id user)\<rparr>]\<rparr>)))))"

record login_result =
  lr_user :: user
  lr_accessToken :: string
  lr_jwtToken :: token
  lr_expiresIn :: "int option"

text \<open>
  \<open>handleAuthCallback(authCode, redirectUri)\<close> on the instance \<open>svc\<close>. On an instance
  that was never initialized \<open>this.msalClient\<close> is \<open>null\<close> and the call of
  \<open>acquireTokenByCode\<close> on it is a TypeError. Every error is thrown on to the caller.
\<close>

definition handleAuthCallback ::
  "env \<Rightarrow> ambient \<Rightarrow> azure_auth_service \<Rightarrow> world \<Rightarrow> string \<Rightarrow> string
     \<Rightarrow> (js_error + login_result) \<times> world" where
  "handleAuthCallback env amb svc w authCode redirectUri =
     (case msalClient svc of
        None \<Rightarrow> (Inl TypeError, w)
      | Some client \<Rightarrow>
          (case acquireTokenByCode (w_idp w) authCode redirectUri of
             (Inl e, idp) \<Rightarrow> (Inl e, w\<lparr>w_idp := idp\<rparr>)
           | (Inr response, idp) \<Rightarrow>
               (case r_account response of
                  None \<Rightarrow> (Inl (Error ''Failed to acquire token from Azure AD''), w\<lparr>w_idp := idp\<rparr>)
                | Some account \<Rightarrow>
                    (case getUserProfile idp (r_accessToken response) of
                       Inl e \<Rightarrow> (Inl e, w\<lparr>w_idp := idp\<rparr>)
                     | Inr userProfile \<Rightarrow>
                         (case upsertUser (w_db w) amb account userProfile (r_accessToken response) of
                            Inl e \<Rightarrow> (Inl e, w\<lparr>w_idp := idp\<rparr>)
                          | Inr (user, db) \<Rightarrow>
                              (Inr \<lparr>lr_user = user, lr_accessToken = r_accessToken response,
                                    lr_jwtToken = generateJWT env (a_now_iat amb) (a_now_exp amb)
                                                    (a_now_sign amb) user,
                                    lr_expiresIn = r_expiresIn response\<rparr>,
                               \<lparr>w_db = db, w_idp = idp\<rparr>))))))"

section \<open>The route GET /auth/callback (routes/auth.js)\<close>

text \<open>\<open>encodeURIComponent\<close>, byte by byte.\<close>

definition uri_unreserved :: "char \<Rightarrow> bool" where
  "uri_unreserved c =
     (c \<in> set ''ABCDEFGHIJKLMNOPQRSTUVWXYZabcdefghijklmnopqrstuvwxyz0123456789-_.!~*()''
      \<or> c = CHR 0x27)"

definition HEX_digit :: "nat \<Rightarrow> char" where
  "HEX_digit n = ''0123456789ABCDEF'' ! (n mod 16)"

definition encodeURIComponent :: "string \<Rightarrow> string" where
  "encodeURIComponent s =
     concat (map (\<lambda>c. if uri_unreserved c then [c]
                       else [CHR ''%'', HEX_digit (of_char c div 16), HEX_digit (of_char c mod 16)]) s)"

text \<open>
  The query of the callback and what the route can see of the session. \<open>cb_session_state\<close>
  is \<open>req.session?.state\<close>, the state value that GET /auth/azure stored "for
  verification" when the login began.
\<close>

record callback_request =
  cb_code :: "string option"
  cb_state :: "string option"
  cb_error :: "string option"
  cb_redirect :: "string option"
  cb_protocol :: string
  cb_host :: string
  cb_session_state :: "string option"

text \<open>
  \<open>LoggedIn r result\<close>: the cookie \<open>jwt\<close> is set to the session token, and the response
  is the redirect to \<open>r\<close> when there is one, else the JSON body with the user and the
  token.
\<close>

datatype callback_response =
  is_Redirect: Redirect string
  | is_LoggedIn: LoggedIn "string option" login_result

text \<open>
  Line 8 of the routes module: \<open>const azureAuthService = new AzureAuthService()\<close>. The
  module never calls \<open>initialize\<close> on this instance, and no other module can reach it.
\<close>

definition azureAuthService :: azure_auth_service where
  "azureAuthService = new_AzureAuthService"

definition callback ::
  "env \<Rightarrow> ambient \<Rightarrow> world \<Rightarrow> callback_request \<Rightarrow> callback_response \<times> world" where
  "callback env amb w req =
     (if truthy_str (cb_error req)
      then (Redirect (''/auth/error?error='' @ encodeURIComponent (the_str (cb_error req))), w)
      else if \<not> truthy_str (cb_code req)
      then (Redirect ''/auth/error?error=missing_code'', w)
      else
        (let redirectUri = or_default (env ''AZURE_REDIRECT_URI'')
               (cb_protocol req @ ''://'' @ cb_host req @ ''/auth/callback'')
         in case handleAuthCallback env amb azureAuthService w (the_str (cb_code req)) redirectUri of
              (Inl e, w') \<Rightarrow> (Redirect ''/auth/error?error=callback_failed'', w')
            | (Inr result, w') \<Rightarrow>
                (LoggedIn (if truthy_str (cb_redirect req) then cb_redirect req else None) result,
                 w')))"

section \<open>Properties of the digests\<close>

lemma length_sha256: "length (sha256 m) = 32"
  by (simp add: sha256_def be_bytes_def Let_def)

lemma length_hmac_sha256: "length (hmac_sha256 key msg) = 32"
  by (simp add: hmac_sha256_def Let_def length_sha256)

lemma length_hex_encode: "length (hex_encode bs) = 2 * length bs"
  by (induction bs) (simp_all add: hex_encode_def hex_byte_def)

lemma length_expectedSignature: "length (expectedSignature secret timestamp body) = 67"
  by (simp add: expectedSignature_def length_hex_encode length_hmac_sha256)

section \<open>Webhook signatures\<close>

text \<open>
  C10. The expected signature is always 67 bytes long. For a claimed signature of any
  other length the comparison primitive raises a RangeError, and
  \<open>verifyWebhookSignature\<close> still returns: its promise is fulfilled with \<open>false\<close>,
  for every setting of the environment.
\<close>

theorem verifyWebhookSignature_length_mismatch:
  "length (Buffer_from (expectedSignature secret timestamp body)) = 67 \<and>
   (length (Buffer_from signature) \<noteq> 67 \<longrightarrow>
      verifyWebhookSignature env signature timestamp body = Fulfilled False \<and>
      (env ''SLACK_SIGNING_SECRET'' = Some secret \<longrightarrow>
         verifyWebhookSignature_try env signature timestamp body = Inl RangeError))"
  by (simp add: verifyWebhookSignature_def verifyWebhookSignature_try_def timingSafeEqual_def
      Buffer_from_def length_expectedSignature split: option.split)

theorem verifyWebhookSignature_length_mismatch_witness:
  "length (Buffer_from ''v0=abc'') \<noteq> 67 \<and>
   [''SLACK_SIGNING_SECRET'' \<mapsto> ''shh''] ''SLACK_SIGNING_SECRET'' = Some ''shh'' \<and>
   verifyWebhookSignature [''SLACK_SIGNING_SECRET'' \<mapsto> ''shh''] ''v0=abc'' ''1700000000'' ''{}''
     = Fulfilled False \<and>
   verifyWebhookSignature_try [''SLACK_SIGNING_SECRET'' \<mapsto> ''shh''] ''v0=abc'' ''1700000000'' ''{}''
     = Inl RangeError"
  using verifyWebhookSignature_length_mismatch
    [of "''shh''" "''1700000000''" "''{}''" "''v0=abc''" "[''SLACK_SIGNING_SECRET'' \<mapsto> ''shh'']"]
  by (simp add: Buffer_from_def)

lemma verifyWebhookSignature_verdict:
  "env ''SLACK_SIGNING_SECRET'' = Some secret \<Longrightarrow>
   verifyWebhookSignature env signature timestamp body
     = Fulfilled (signature = expectedSignature secret timestamp body)"
  by (auto simp add: verifyWebhookSignature_def verifyWebhookSignature_try_def
      timingSafeEqual_def Buffer_from_def)

lemma expectedSignature_neq:
  "length s \<noteq> 67 \<Longrightarrow> (s = expectedSignature secret timestamp body) = False"
  using length_expectedSignature [of secret timestamp body] by auto

lemma verifySlackSignature_passes:
  "truthy_str (req_headers req ''x-slack-signature'') \<Longrightarrow>
   truthy_str (req_headers req ''x-slack-request-timestamp'') \<Longrightarrow>
   verifySlackSignature env req = Next ()"
  by (simp add: verifySlackSignature_def truthy_promise_def)

text \<open>
  C2. At the route the verdict of the verifier is not awaited. For the request below the
  claimed signature is not the expected one, the promise is fulfilled with \<open>false\<close>,
  and the middleware hands the request on all the same.
\<close>

theorem verifySlackSignature_forged_accepted:
  "verifySlackSignature_isValid [''SLACK_SIGNING_SECRET'' \<mapsto> ''shh'']
     \<lparr>req_headers = [''x-slack-signature'' \<mapsto> ''v0=forged'',
                 ''x-slack-request-timestamp'' \<mapsto> ''1700000000''],
      req_rawBody = ''{}'', req_body = JObject []\<rparr> = Fulfilled False \<and>
   verifySlackSignature [''SLACK_SIGNING_SECRET'' \<mapsto> ''shh'']
     \<lparr>req_headers = [''x-slack-signature'' \<mapsto> ''v0=forged'',
                 ''x-slack-request-timestamp'' \<mapsto> ''1700000000''],
      req_rawBody = ''{}'', req_body = JObject []\<rparr> = Next ()"
  by (simp add: verifySlackSignature_isValid_def verifySlackSignature_def truthy_promise_def truthy_str_def
      the_str_def verifyWebhookSignature_verdict expectedSignature_neq)

text \<open>
  C3 (as stated, refuted). The verifier never reads the clock. With a tolerance of 300
  seconds and the current time 1700000600, the timestamp 1700000000 is stale; the
  verdict on the correctly signed request that carries it is \<open>true\<close>, and the route
  hands the request on.
\<close>

theorem stale_request_accepted:
  "spec_stale 300 1700000600 ''1700000000'' \<and>
   verifyWebhookSignature [''SLACK_SIGNING_SECRET'' \<mapsto> ''shh'']
     (expectedSignature ''shh'' ''1700000000'' ''{}'') ''1700000000'' ''{}'' = Fulfilled True \<and>
   verifySlackSignature [''SLACK_SIGNING_SECRET'' \<mapsto> ''shh'']
     \<lparr>req_headers =
        [''x-slack-signature'' \<mapsto> expectedSignature ''shh'' ''1700000000'' ''{}'',
         ''x-slack-request-timestamp'' \<mapsto> ''1700000000''],
      req_rawBody = ''{}'', req_body = JObject []\<rparr> = Next ()"
  by (simp add: spec_stale_def verifyWebhookSignature_verdict verifySlackSignature_def
      truthy_promise_def truthy_str_def expectedSignature_def)

text \<open>
  C3 (amended). The verdict of \<open>verifyWebhookSignature\<close> is a function of the secret,
  the signature, the timestamp string and the body alone: the current time is not among
  its inputs. A correctly computed signature is accepted whatever the timestamp says, the
  one signed a minute ago and the one signed ten minutes ago alike.
\<close>

theorem verifyWebhookSignature_ignores_clock:
  "env ''SLACK_SIGNING_SECRET'' = Some secret \<Longrightarrow>
   verifyWebhookSignature env (expectedSignature secret timestamp body) timestamp body
     = Fulfilled True"
  by (simp add: verifyWebhookSignature_verdict)

theorem verifyWebhookSignature_ignores_clock_witness:
  "[''SLACK_SIGNING_SECRET'' \<mapsto> ''shh''] ''SLACK_SIGNING_SECRET'' = Some ''shh'' \<and>
   verifyWebhookSignature [''SLACK_SIGNING_SECRET'' \<mapsto> ''shh'']
     (expectedSignature ''shh'' ''1'' ''{}'') ''1'' ''{}'' = Fulfilled True"
  using verifyWebhookSignature_ignores_clock
    [of "[''SLACK_SIGNING_SECRET'' \<mapsto> ''shh'']" "''shh''" "''1''" "''{}''"]
  by simp

text \<open>
  C6. The string the middleware has hashed is \<open>JSON.stringify(req.body)\<close>, not the bytes
  received. A slash command arrives form-encoded; for the request below, signed by the
  sender over the raw bytes, the verifier is called on a JSON text that is not the raw
  body.
\<close>

theorem verifySlackSignature_hashes_reserialized_body:
  \<open>verifySlackSignature_isValid [''SLACK_SIGNING_SECRET'' \<mapsto> ''shh'']
     \<lparr>req_headers =
        [''x-slack-signature'' \<mapsto> expectedSignature ''shh'' ''1700000000'' ''command=%2Fhi&user_id=U1'',
         ''x-slack-request-timestamp'' \<mapsto> ''1700000000''],
      req_rawBody = ''command=%2Fhi&user_id=U1'',
      req_body = JObject [(''command'', JString ''/hi''), (''user_id'', JString ''U1'')]\<rparr>
   = verifyWebhookSignature [''SLACK_SIGNING_SECRET'' \<mapsto> ''shh'']
       (expectedSignature ''shh'' ''1700000000'' ''command=%2Fhi&user_id=U1'')
       ''1700000000'' ''{"command":"/hi","user_id":"U1"}'' \<and>
   JSON_stringify (JObject [(''command'', JString ''/hi''), (''user_id'', JString ''U1'')])
     \<noteq> ''command=%2Fhi&user_id=U1''\<close>
  by (simp add: verifySlackSignature_isValid_def the_str_def json_quote_def json_escape_def)

section \<open>Session tokens and the revocation gate\<close>

lemma verifyJWT_Some_iff:
  "verifyJWT env now tok = Some c \<longleftrightarrow>
     (\<exists>t. tok = Compact t \<and> t_payload t = c \<and> t_alg t = ''HS256'' \<and>
          t_signature t = jws_signature (jwt_secret env) ''HS256'' c \<and>
          \<not> expired (now div 1000) c \<and>
          c_aud c = ''smart-slack-bot-users'' \<and> c_iss c = ''smart-slack-bot'')"
  by (cases tok) (auto simp add: verifyJWT_def jwt_verify_def split: if_splits)

lemma validateToken_True:
  assumes "validateToken env db now_b now_c tok = Fulfilled True"
  shows "\<exists>c u. verifyJWT env now_c tok = Some c \<and>
           user_findUnique db (c_userId c) = Inr (Some u) \<and> u_isActive u"
  using assms
  by (auto simp add: validateToken_def validateToken_try_def
      split: option.splits sum.splits if_splits)

lemma validateToken_revoked:
  assumes "verifyJWT env now_a tok = Some c"
    and "\<not> (\<exists>u. user_findUnique db (c_userId c) = Inr (Some u) \<and> u_isActive u)"
  shows "validateToken env db now_b now_c tok = Fulfilled False"
proof -
  from assms(1) obtain t where t: "tok = Compact t" "t_payload t = c"
    by (auto simp add: verifyJWT_Some_iff)
  have same: "verifyJWT env now_c tok = Some c' \<Longrightarrow> c' = c" for c'
    using t by (auto simp add: verifyJWT_Some_iff)
  show ?thesis
  proof (cases "validateToken env db now_b now_c tok")
    case (Fulfilled b)
    show ?thesis
    proof (cases b)
      case True
      with Fulfilled validateToken_True [of env db now_b now_c tok] same assms(2)
      show ?thesis by auto
    next
      case False
      with Fulfilled show ?thesis by simp
    qed
  next
    case (Rejected e)
    then show ?thesis
      by (simp add: validateToken_def split: sum.splits)
  qed
qed

text \<open>
  C1. \<open>requireAuth\<close> hands a request on only when all three clauses hold: the token's
  signature is the HS256 signature of its payload under the process-wide secret, its
  \<open>exp\<close> is not in the past at the clock readings of the two verifications, and the
  User row its \<open>userId\<close> names exists and is active. In particular a token that
  \<open>verifyJWT\<close> accepts, whose user is missing or inactive, is answered with 401
  "User account is inactive or revoked".
\<close>

theorem requireAuth_conjunction:
  "(requireAuth env db now_a now_b now_c req = Next c \<longrightarrow>
      (\<exists>t u. request_token req = Some (Compact t) \<and> t_payload t = c \<and>
         t_alg t = ''HS256'' \<and>
         t_signature t = jws_signature (jwt_secret env) ''HS256'' c \<and>
         \<not> expired (now_a div 1000) c \<and> \<not> expired (now_c div 1000) c \<and>
         user_findUnique db (c_userId c) = Inr (Some u) \<and> u_isActive u)) \<and>
   (request_token req = Some tok \<and> verifyJWT env now_a tok = Some c' \<and>
    \<not> (\<exists>u. user_findUnique db (c_userId c') = Inr (Some u) \<and> u_isActive u) \<longrightarrow>
      requireAuth env db now_a now_b now_c req
        = Respond 401 ''User account is inactive or revoked'')"
proof (intro conjI impI)
  assume ok: "requireAuth env db now_a now_b now_c req = Next c"
  then obtain tok where tok: "request_token req = Some tok"
    by (cases "request_token req") (auto simp add: requireAuth_def truthy_token_def)
  from ok tok have v0: "verifyJWT env now_a tok = Some c"
    by (auto simp add: requireAuth_def Let_def split: option.splits sum.splits if_splits)
  from ok tok have valid: "validateToken env db now_b now_c tok = Fulfilled True"
    by (cases "validateToken env db now_b now_c tok")
      (auto simp add: requireAuth_def Let_def await_def
        split: option.splits sum.splits if_splits)
  from v0 obtain t where t: "tok = Compact t" "t_payload t = c" "t_alg t = ''HS256''"
      "t_signature t = jws_signature (jwt_secret env) ''HS256'' c"
      "\<not> expired (now_a div 1000) c"
    by (auto simp add: verifyJWT_Some_iff)
  from validateToken_True [OF valid] obtain c2 u where
      v2: "verifyJWT env now_c tok = Some c2"
      and u: "user_findUnique db (c_userId c2) = Inr (Some u)" "u_isActive u"
    by blast
  from v2 t have "c2 = c" "\<not> expired (now_c div 1000) c"
    by (auto simp add: verifyJWT_Some_iff)
  with t u tok
  show "\<exists>t u. request_token req = Some (Compact t) \<and> t_payload t = c \<and>
         t_alg t = ''HS256'' \<and>
         t_signature t = jws_signature (jwt_secret env) ''HS256'' c \<and>
         \<not> expired (now_a div 1000) c \<and> \<not> expired (now_c div 1000) c \<and>
         user_findUnique db (c_userId c) = Inr (Some u) \<and> u_isActive u"
    by auto
next
  assume h: "request_token req = Some tok \<and> verifyJWT env now_a tok = Some c' \<and>
    \<not> (\<exists>u. user_findUnique db (c_userId c') = Inr (Some u) \<and> u_isActive u)"
  then have "validateToken env db now_b now_c tok = Fulfilled False"
    using validateToken_revoked [of env now_a tok c' db now_b now_c] by blast
  moreover from h have "truthy_token (Some tok)"
    by (cases tok) (auto simp add: truthy_token_def verifyJWT_Some_iff)
  ultimately show "requireAuth env db now_a now_b now_c req
      = Respond 401 ''User account is inactive or revoked''"
    using h by (simp add: requireAuth_def await_def)
qed

theorem requireAuth_conjunction_witness:
  "let env = [''JWT_SECRET'' \<mapsto> ''s3cr3t''];
       alice = \<lparr>u_id = ''u1'', u_azureId = ''ext-1'', u_email = ''a@x.com'',
                u_displayName = Some ''Alice'', u_attributes = Map.empty,
                u_accessToken = None, u_lastLoginAt = Some 1700000000000,
                u_lastLogoutAt = None, u_isActive = True, u_revokedAt = None\<rparr>;
       bob = \<lparr>u_id = ''u2'', u_azureId = ''ext-2'', u_email = ''b@x.com'',
              u_displayName = None, u_attributes = Map.empty,
              u_accessToken = None, u_lastLoginAt = Some 1700000000000,
              u_lastLogoutAt = None, u_isActive = False, u_revokedAt = Some 1700000000500\<rparr>;
       db = \<lparr>users = [alice, bob], userPermissions = [], authLogs = [], reachable = True\<rparr>;
       tok1 = generateJWT env 1700000000000 1700000000000 1700000000000 alice;
       tok2 = generateJWT env 1700000000000 1700000000000 1700000000000 bob
   in requireAuth env db 1700000001000 1700000001001 1700000001002
        \<lparr>authorization = Some tok1, cookies_jwt = None, query_token = None\<rparr>
        = Next (generateJWT_payload 1700000000000 1700000000000 alice) \<and>
      user_findUnique db ''u1'' = Inr (Some alice) \<and>
      verifyJWT env 1700000001000 tok2
        = Some (generateJWT_payload 1700000000000 1700000000000 bob) \<and>
      user_findUnique db ''u2'' = Inr (Some bob) \<and>
      requireAuth env db 1700000001000 1700000001001 1700000001002
        \<lparr>authorization = None, cookies_jwt = Some tok2, query_token = None\<rparr>
        = Respond 401 ''User account is inactive or revoked''"
proof -
  let ?env = "[''JWT_SECRET'' \<mapsto> ''s3cr3t'']"
  let ?alice = "\<lparr>u_id = ''u1'', u_azureId = ''ext-1'', u_email = ''a@x.com'',
                u_displayName = Some ''Alice'', u_attributes = Map.empty,
                u_accessToken = None, u_lastLoginAt = Some 1700000000000,
                u_lastLogoutAt = None, u_isActive = True, u_revokedAt = None\<rparr>"
  let ?bob = "\<lparr>u_id = ''u2'', u_azureId = ''ext-2'', u_email = ''b@x.com'',
              u_displayName = None, u_attributes = Map.empty,
              u_accessToken = None, u_lastLoginAt = Some 1700000000000,
              u_lastLogoutAt = None, u_isActive = False, u_revokedAt = Some 1700000000500\<rparr>"
  let ?db = "\<lparr>users = [?alice, ?bob], userPermissions = [], authLogs = [], reachable = True\<rparr>"
  let ?tok1 = "generateJWT ?env 1700000000000 1700000000000 1700000000000 ?alice"
  let ?tok2 = "generateJWT ?env 1700000000000 1700000000000 1700000000000 ?bob"
  let ?req1 = "\<lparr>authorization = Some ?tok1, cookies_jwt = None, query_token = None\<rparr>"
  let ?req2 = "\<lparr>authorization = None, cookies_jwt = Some ?tok2, query_token = None\<rparr>"
  note defs = requireAuth_def request_token_def truthy_token_def await_def
      validateToken_def validateToken_try_def jwt_decode_def verifyJWT_def jwt_verify_def
      generateJWT_def jwt_sign_def generateJWT_payload_def jwt_secret_def or_default_def
      expired_def user_findUnique_def Let_def
  have accepted: "requireAuth ?env ?db 1700000001000 1700000001001 1700000001002 ?req1
      = Next (generateJWT_payload 1700000000000 1700000000000 ?alice)"
    by (simp add: defs)
  have active: "user_findUnique ?db ''u1'' = Inr (Some ?alice)"
    using requireAuth_conjunction
      [where env = ?env and db = ?db and now_a = 1700000001000 and now_b = 1700000001001
         and now_c = 1700000001002 and req = ?req1
         and c = "generateJWT_payload 1700000000000 1700000000000 ?alice"]
      accepted
    by (simp add: generateJWT_payload_def user_findUnique_def)
  have verifies: "verifyJWT ?env 1700000001000 ?tok2
      = Some (generateJWT_payload 1700000000000 1700000000000 ?bob)"
    by (simp add: defs)
  have found: "user_findUnique ?db ''u2'' = Inr (Some ?bob)"
    by (simp add: user_findUnique_def)
  have token: "request_token ?req2 = Some ?tok2"
    by (simp add: request_token_def truthy_token_def generateJWT_def jwt_sign_def Let_def)
  have revoked: "\<not> (\<exists>u. user_findUnique ?db
      (c_userId (generateJWT_payload 1700000000000 1700000000000 ?bob)) = Inr (Some u) \<and> u_isActive u)"
    by (simp add: generateJWT_payload_def user_findUnique_def)
  have rejected: "requireAuth ?env ?db 1700000001000 1700000001001 1700000001002 ?req2
      = Respond 401 ''User account is inactive or revoked''"
    using requireAuth_conjunction
      [where env = ?env and db = ?db and now_a = 1700000001000 and now_b = 1700000001001
         and now_c = 1700000001002 and req = ?req2 and tok = ?tok2
         and c' = "generateJWT_payload 1700000000000 1700000000000 ?bob"]
      token verifies revoked
    by blast
  from accepted active verifies found rejected show ?thesis
    by (simp add: Let_def)
qed

text \<open>
  C7 (as stated, refuted). With the first clock reading at 1999 ms and the later ones at
  2000 ms the token that \<open>generateJWT\<close> issues verifies, and its \<open>exp\<close> is
  \<open>iat\<close> + 86401. With \<open>JWT_EXPIRES_IN=1h\<close> in the environment the lifetime is
  still 86400 seconds.
\<close>

theorem generateJWT_exp_after_clock_tick:
  "verifyJWT Map.empty 2000
     (generateJWT Map.empty 1999 2000 2000
        \<lparr>u_id = ''u1'', u_azureId = ''ext-1'', u_email = ''a@x.com'',
         u_displayName = None, u_attributes = Map.empty, u_accessToken = None,
         u_lastLoginAt = None, u_lastLogoutAt = None, u_isActive = True,
         u_revokedAt = None\<rparr>)
   = Some \<lparr>c_userId = ''u1'', c_email = ''a@x.com'', c_displayName = None,
            c_azureId = ''ext-1'', c_permissions = [], c_iat = 1, c_exp = Some 86402,
            c_iss = ''smart-slack-bot'', c_aud = ''smart-slack-bot-users''\<rparr> \<and>
   verifyJWT [''JWT_EXPIRES_IN'' \<mapsto> ''1h''] 2000
     (generateJWT [''JWT_EXPIRES_IN'' \<mapsto> ''1h''] 2000 2000 2000
        \<lparr>u_id = ''u1'', u_azureId = ''ext-1'', u_email = ''a@x.com'',
         u_displayName = None, u_attributes = Map.empty, u_accessToken = None,
         u_lastLoginAt = None, u_lastLogoutAt = None, u_isActive = True,
         u_revokedAt = None\<rparr>)
   = Some \<lparr>c_userId = ''u1'', c_email = ''a@x.com'', c_displayName = None,
            c_azureId = ''ext-1'', c_permissions = [], c_iat = 2, c_exp = Some 86402,
            c_iss = ''smart-slack-bot'', c_aud = ''smart-slack-bot-users''\<rparr>"
  by (simp add: verifyJWT_def jwt_verify_def generateJWT_def jwt_sign_def Let_def
      generateJWT_payload_def jwt_secret_def or_default_def expired_def)

text \<open>
  C7 (amended). A token that \<open>generateJWT\<close> issues for a user and that is verified
  with the same environment before it expires is accepted, and the claims returned carry
  the user's id and email and the pinned issuer and audience. When the clock readings
  made while the token is issued (the two of \<open>generateJWT\<close> and the one of
  \<open>jwt.sign\<close>) fall in the same second, \<open>exp = iat + 86400\<close>. The lifetime is the
  constant 24 hours: \<open>JWT_EXPIRES_IN\<close> has no influence on the token.
\<close>

theorem generateJWT_verifyJWT_roundtrip:
  "(now div 1000 < now_exp div 1000 + 86400 \<longrightarrow>
      (\<exists>c. verifyJWT env now (generateJWT env now_iat now_exp now_sign user) = Some c \<and>
           c_userId c = u_id user \<and> c_email c = u_email user \<and>
           c_iss c = ''smart-slack-bot'' \<and> c_aud c = ''smart-slack-bot-users'' \<and>
           (now_iat div 1000 = now_exp div 1000 \<and> now_sign div 1000 = now_exp div 1000
              \<longrightarrow> c_exp c = Some (c_iat c + 86400)))) \<and>
   generateJWT (env(''JWT_EXPIRES_IN'' := v)) now_iat now_exp now_sign user
     = generateJWT env now_iat now_exp now_sign user"
  by (simp add: verifyJWT_def jwt_verify_def generateJWT_def jwt_sign_def Let_def
      generateJWT_payload_def expired_def jwt_secret_def)

theorem generateJWT_verifyJWT_roundtrip_witness:
  "verifyJWT Map.empty 1700000001000
     (generateJWT Map.empty 1700000000123 1700000000456 1700000000789
        \<lparr>u_id = ''u1'', u_azureId = ''ext-1'', u_email = ''a@x.com'',
         u_displayName = None, u_attributes = Map.empty, u_accessToken = None,
         u_lastLoginAt = None, u_lastLogoutAt = None, u_isActive = True,
         u_revokedAt = None\<rparr>)
   = Some \<lparr>c_userId = ''u1'', c_email = ''a@x.com'', c_displayName = None,
            c_azureId = ''ext-1'', c_permissions = [], c_iat = 1700000000,
            c_exp = Some 1700086400, c_iss = ''smart-slack-bot'',
            c_aud = ''smart-slack-bot-users''\<rparr> \<and>
   generateJWT [''JWT_EXPIRES_IN'' \<mapsto> ''1h''] 1700000000123 1700000000456 1700000000789
        \<lparr>u_id = ''u1'', u_azureId = ''ext-1'', u_email = ''a@x.com'',
         u_displayName = None, u_attributes = Map.empty, u_accessToken = None,
         u_lastLoginAt = None, u_lastLogoutAt = None, u_isActive = True,
         u_revokedAt = None\<rparr>
   = generateJWT Map.empty 1700000000123 1700000000456 1700000000789
        \<lparr>u_id = ''u1'', u_azureId = ''ext-1'', u_email = ''a@x.com'',
         u_displayName = None, u_attributes = Map.empty, u_accessToken = None,
         u_lastLoginAt = None, u_lastLogoutAt = None, u_isActive = True,
         u_revokedAt = None\<rparr>"
  using generateJWT_verifyJWT_roundtrip
    [where env = Map.empty and now = 1700000001000 and now_iat = 1700000000123
       and now_exp = 1700000000456 and now_sign = 1700000000789 and v = "Some ''1h''"
       and user = "\<lparr>u_id = ''u1'', u_azureId = ''ext-1'', u_email = ''a@x.com'',
         u_displayName = None, u_attributes = Map.empty, u_accessToken = None,
         u_lastLoginAt = None, u_lastLogoutAt = None, u_isActive = True,
         u_revokedAt = None\<rparr>"]
  by (simp add: verifyJWT_def jwt_verify_def generateJWT_def jwt_sign_def Let_def
      generateJWT_payload_def expired_def jwt_secret_def or_default_def)

section \<open>Permission evaluation\<close>

lemma checkUserPermission_admin:
  assumes "reachable db" and "find (\<lambda>u. u_id u = userId) (users db) = Some u"
    and "g \<in> set (userPermissions db)" and "g_userId g = userId" and "g_name g = ''admin''"
  shows "checkUserPermission db userId permission = Fulfilled True"
  using assms
  by (auto simp add: checkUserPermission_def checkUserPermission_try_def
      user_findUnique_permissions_def list_ex_iff)

lemma checkUserPermission_no_grant:
  assumes "\<not> list_ex (\<lambda>g. g_userId g = userId \<and> (g_name g = permission \<or> g_name g = ''admin''))
             (userPermissions db)"
  shows "checkUserPermission db userId permission = Fulfilled False"
  using assms
  by (auto simp add: checkUserPermission_def checkUserPermission_try_def
      user_findUnique_permissions_def list_ex_iff split: option.splits)

lemma checkUserPermission_unreachable:
  assumes "\<not> reachable db"
  shows "checkUserPermission db userId permission = Fulfilled False"
  using assms
  by (simp add: checkUserPermission_def checkUserPermission_try_def
      user_findUnique_permissions_def)

lemma checkUserPermission_no_user:
  assumes "find (\<lambda>u. u_id u = userId) (users db) = None"
  shows "checkUserPermission db userId permission = Fulfilled False"
  using assms
  by (simp add: checkUserPermission_def checkUserPermission_try_def
      user_findUnique_permissions_def)

text \<open>
  C5. Evaluation does not look at \<open>isActive\<close> or \<open>expiresAt\<close>. At the time 2000, user
  u1 holds a grant of "reports" that was deactivated and user u2 one that expired at
  1000; neither grant is effective, and both users are told they have the permission.
\<close>

theorem checkUserPermission_ineffective_grant:
  "\<not> spec_effective 2000
       \<lparr>g_userId = ''u1'', g_name = ''reports'', g_grantedAt = 0, g_grantedBy = None,
        g_expiresAt = None, g_isActive = False\<rparr> \<and>
   \<not> spec_effective 2000
       \<lparr>g_userId = ''u2'', g_name = ''reports'', g_grantedAt = 0, g_grantedBy = None,
        g_expiresAt = Some 1000, g_isActive = True\<rparr> \<and>
   checkUserPermission
     \<lparr>users =
        [\<lparr>u_id = ''u1'', u_azureId = ''ext-1'', u_email = ''a@x.com'', u_displayName = None,
          u_attributes = Map.empty, u_accessToken = None, u_lastLoginAt = None,
          u_lastLogoutAt = None, u_isActive = True, u_revokedAt = None\<rparr>,
         \<lparr>u_id = ''u2'', u_azureId = ''ext-2'', u_email = ''b@x.com'', u_displayName = None,
          u_attributes = Map.empty, u_accessToken = None, u_lastLoginAt = None,
          u_lastLogoutAt = None, u_isActive = True, u_revokedAt = None\<rparr>],
      userPermissions =
        [\<lparr>g_userId = ''u1'', g_name = ''reports'', g_grantedAt = 0, g_grantedBy = None,
          g_expiresAt = None, g_isActive = False\<rparr>,
         \<lparr>g_userId = ''u2'', g_name = ''reports'', g_grantedAt = 0, g_grantedBy = None,
          g_expiresAt = Some 1000, g_isActive = True\<rparr>],
      authLogs = [], reachable = True\<rparr> ''u1'' ''reports'' = Fulfilled True \<and>
   checkUserPermission
     \<lparr>users =
        [\<lparr>u_id = ''u1'', u_azureId = ''ext-1'', u_email = ''a@x.com'', u_displayName = None,
          u_attributes = Map.empty, u_accessToken = None, u_lastLoginAt = None,
          u_lastLogoutAt = None, u_isActive = True, u_revokedAt = None\<rparr>,
         \<lparr>u_id = ''u2'', u_azureId = ''ext-2'', u_email = ''b@x.com'', u_displayName = None,
          u_attributes = Map.empty, u_accessToken = None, u_lastLoginAt = None,
          u_lastLogoutAt = None, u_isActive = True, u_revokedAt = None\<rparr>],
      userPermissions =
        [\<lparr>g_userId = ''u1'', g_name = ''reports'', g_grantedAt = 0, g_grantedBy = None,
          g_expiresAt = None, g_isActive = False\<rparr>,
         \<lparr>g_userId = ''u2'', g_name = ''reports'', g_grantedAt = 0, g_grantedBy = None,
          g_expiresAt = Some 1000, g_isActive = True\<rparr>],
      authLogs = [], reachable = True\<rparr> ''u2'' ''reports'' = Fulfilled True"
  by (simp add: spec_effective_def checkUserPermission_def checkUserPermission_try_def
      user_findUnique_permissions_def)

text \<open>
  C9. User u1 holds one grant, a deactivated "admin": no effective grant named "deploy"
  and no effective "admin". Evaluation of "deploy" for u1 returns \<open>true\<close>.
\<close>

theorem checkUserPermission_inactive_admin:
  "\<not> list_ex (spec_effective 2000)
       [\<lparr>g_userId = ''u1'', g_name = ''admin'', g_grantedAt = 0, g_grantedBy = None,
         g_expiresAt = None, g_isActive = False\<rparr>] \<and>
   checkUserPermission
     \<lparr>users =
        [\<lparr>u_id = ''u1'', u_azureId = ''ext-1'', u_email = ''a@x.com'', u_displayName = None,
          u_attributes = Map.empty, u_accessToken = None, u_lastLoginAt = None,
          u_lastLogoutAt = None, u_isActive = True, u_revokedAt = None\<rparr>],
      userPermissions =
        [\<lparr>g_userId = ''u1'', g_name = ''admin'', g_grantedAt = 0, g_grantedBy = None,
          g_expiresAt = None, g_isActive = False\<rparr>],
      authLogs = [], reachable = True\<rparr> ''u1'' ''deploy'' = Fulfilled True"
  by (simp add: spec_effective_def checkUserPermission_def checkUserPermission_try_def
      user_findUnique_permissions_def)

section \<open>The login callback and the CSRF state\<close>

lemma handleAuthCallback_uninitialized:
  "handleAuthCallback env amb new_AzureAuthService w authCode redirectUri = (Inl TypeError, w)"
  by (simp add: handleAuthCallback_def new_AzureAuthService_def)

lemma callback_with_code:
  assumes "\<not> truthy_str (cb_error req)" and "truthy_str (cb_code req)"
  shows "callback env amb w req = (Redirect ''/auth/error?error=callback_failed'', w)"
  using assms
  by (simp add: callback_def azureAuthService_def handleAuthCallback_uninitialized)


text \<open>
  On an instance that has been initialized the exchange itself goes through: the method
  takes the code and the redirect URI and has no parameter for the state.
\<close>

lemma handleAuthCallback_initialized:
  "let uri = ''https://bot.example/auth/callback'';
       idp = \<lparr>pending =
                [''code-1'' \<mapsto> (uri, \<lparr>r_account = Some ''ext-1'', r_accessToken = ''at-1'',
                                        r_expiresIn = Some 3600\<rparr>)],
              graph =
                [''at-1'' \<mapsto> \<lparr>p_mail = Some ''a@x.com'', p_userPrincipalName = None,
                    p_displayName = Some ''Alice'', p_attributes = Map.empty,
                    p_businessPhones = None\<rparr>]\<rparr>;
       w = \<lparr>w_db = \<lparr>users = [], userPermissions = [], authLogs = [], reachable = True\<rparr>,
            w_idp = idp\<rparr>;
       amb = \<lparr>a_now_login = 1000, a_now_iat = 1001, a_now_exp = 1002, a_now_sign = 1003,
              a_cuid = ''u1''\<rparr>;
       svc = \<lparr>msalClient = Some ConfidentialClientApplication, isInitialized = True\<rparr>;
       first = handleAuthCallback Map.empty amb svc w ''code-1'' uri;
       again = handleAuthCallback Map.empty amb svc (snd first) ''code-1'' uri
   in map_sum id (\<lambda>r. u_email (lr_user r)) (fst first) = Inr ''a@x.com'' \<and>
      map (\<lambda>u. u_email u) (users (w_db (snd first))) = [''a@x.com''] \<and>
      fst again = Inl (Error ''invalid_grant'')"
  by (simp add: Let_def handleAuthCallback_def acquireTokenByCode_def
      getUserProfile_def upsertUser_def or_str_def truthy_str_def)

section \<open>Secrets\<close>




end
